theory Spec2Isabelle
  imports Complex_Main "HOL-Library.Word"
begin

unbundle bit_operations_syntax

section \<open>Camera identifiers and contexts (camera.hpp, camera.cpp)\<close>

text \<open>
  \<^verbatim>\<open>enum class Context { Hub, Room, Quest }\<close> is a datatype.
  \<^verbatim>\<open>enum class CameraID : uint32_t\<close> is read from the game's memory by a
  \<^verbatim>\<open>reinterpret_cast\<close>, so any 32-bit value can occur: it is a 32-bit word, and the
  enumerators are named constants.
\<close>

datatype Context = Hub | Room | Quest

type_synonym CameraID = "32 word"

definition Normal :: CameraID where "Normal = 0"
definition Sprint :: CameraID where "Sprint = 3"
definition Combat :: CameraID where "Combat = 83"
definition BaseHub :: CameraID where "BaseHub = 85"
definition BaseHubSprint :: CameraID where "BaseHubSprint = 86"
definition LivingQuarters :: CameraID where "LivingQuarters = 118"
definition PrivateQuarters :: CameraID where "PrivateQuarters = 119"
definition PrivateSuite :: CameraID where "PrivateSuite = 120"
definition SurveyorSet :: CameraID where "SurveyorSet = 147"
definition Seliana :: CameraID where "Seliana = 252"
definition SelianaSprint :: CameraID where "SelianaSprint = 253"
definition SelianaHub :: CameraID where "SelianaHub = 254"
definition SelianaHubSprint :: CameraID where "SelianaHubSprint = 255"
definition SelianaRoom :: CameraID where "SelianaRoom = 256"

definition set_hub_context_ids :: "CameraID list" where
  "set_hub_context_ids =
     [BaseHub, BaseHubSprint, Seliana, SelianaSprint, SelianaHub, SelianaHubSprint]"

definition set_room_context_ids :: "CameraID list" where
  "set_room_context_ids = [LivingQuarters, PrivateQuarters, PrivateSuite, SelianaRoom]"

definition set_quest_context_ids :: "CameraID list" where
  "set_quest_context_ids = [Normal, Sprint, Combat]"

text \<open>\<^verbatim>\<open>std::ranges::contains(ids, id)\<close> is list membership.\<close>

definition sets_hub_context :: "CameraID \<Rightarrow> bool" where
  "sets_hub_context cid = (cid \<in> set set_hub_context_ids)"

definition sets_room_context :: "CameraID \<Rightarrow> bool" where
  "sets_room_context cid = (cid \<in> set set_room_context_ids)"

definition sets_quest_context :: "CameraID \<Rightarrow> bool" where
  "sets_quest_context cid = (cid \<in> set set_quest_context_ids)"

section \<open>The tracker state\<close>

record State =
  "context" :: Context
  camera_id :: CameraID

text \<open>The initial value of the global \<^verbatim>\<open>g_state\<close>: the member initialisers of State.\<close>

definition g_state_init :: State where
  "g_state_init = \<lparr>context = Quest, camera_id = Normal\<rparr>"

text \<open>
  \<^verbatim>\<open>State::update\<close> mutates the object it is called on: three independent
  \<^verbatim>\<open>if\<close>s, each overwriting the context, then the identifier. The model takes the
  object and returns it updated. The method is only ever called on \<^verbatim>\<open>g_state\<close>, and it
  returns a reference to \<^verbatim>\<open>g_state\<close>: the returned state is the updated one.
\<close>

definition State_update :: "State \<Rightarrow> CameraID \<Rightarrow> State" where
  "State_update this new_camera_id =
     (let s1 = (if sets_hub_context new_camera_id then this\<lparr>context := Hub\<rparr> else this);
          s2 = (if sets_room_context new_camera_id then s1\<lparr>context := Room\<rparr> else s1);
          s3 = (if sets_quest_context new_camera_id then s2\<lparr>context := Quest\<rparr> else s2)
      in s3\<lparr>camera_id := new_camera_id\<rparr>)"

section \<open>Floating point\<close>

text \<open>
  The code computes on \<^verbatim>\<open>float\<close>. What the processor and the C library compute
  (\<^verbatim>\<open>*\<close>, \<^verbatim>\<open>/\<close>, \<^verbatim>\<open>std::tan\<close>, \<^verbatim>\<open>std::atan\<close>, \<^verbatim>\<open>std::round\<close>, and the value a
  decimal literal denotes) is not code of this program: the model takes these operations
  as a parameter, a record over the type \<open>'f\<close> of float values. Theorems that hold for
  every such record hold for the real unit, whatever its rounding.
\<close>

record 'f fpu =
  flit :: "real \<Rightarrow> 'f"
  fmul :: "'f \<Rightarrow> 'f \<Rightarrow> 'f"
  fdiv :: "'f \<Rightarrow> 'f \<Rightarrow> 'f"
  ftan :: "'f \<Rightarrow> 'f"
  fatan :: "'f \<Rightarrow> 'f"
  fround :: "'f \<Rightarrow> 'f"

text \<open>
  \<^verbatim>\<open>std::round\<close> on exact numbers: to the nearest integer, halfway cases away from
  zero.
\<close>

definition round_half_away :: "real \<Rightarrow> real" where
  "round_half_away x =
     (if x < 0 then - of_int \<lfloor>- x + 1 / 2\<rfloor> else of_int \<lfloor>x + 1 / 2\<rfloor>)"

text \<open>
  The unit of exact real arithmetic: every operation without rounding error. It is one
  instance of the parameter, not the float unit of the program: it serves to evaluate
  concrete inputs, and no property of the program is stated on it alone.
\<close>

definition exact_fpu :: "real fpu" where
  "exact_fpu = \<lparr>flit = (\<lambda>r. r), fmul = (\<lambda>a b. a * b), fdiv = (\<lambda>a b. a / b),
     ftan = tan, fatan = arctan, fround = round_half_away\<rparr>"

definition PI :: "'f fpu \<Rightarrow> 'f" where
  "PI fp = flit fp 3.1415927"

definition proj_scale_from_fov :: "'f fpu \<Rightarrow> 'f \<Rightarrow> 'f" where
  "proj_scale_from_fov fp fv = ftan fp (fmul fp (fdiv fp (PI fp) (flit fp 360)) fv)"

definition fov_from_proj_scale :: "'f fpu \<Rightarrow> 'f \<Rightarrow> 'f" where
  "fov_from_proj_scale fp proj_scale =
     fmul fp (fdiv fp (flit fp 360) (PI fp)) (fatan fp proj_scale)"

text \<open>
  What is known of the real float unit is its accuracy. A float value is the real number it
  denotes; \<open>close_to k x X\<close> says that the computed \<open>x\<close> is within relative error
  \<open>k / 100000\<close> of the exact \<open>X\<close>. A unit is \<open>accurate\<close> when, on operands of
  ordinary magnitude, each literal, product, quotient, tangent and arc tangent is within
  relative error \<open>1 / 100000\<close> of the exact result, and \<^verbatim>\<open>std::round\<close> is the exact
  rounding. IEEE-754 binary32 arithmetic meets this with a wide margin: its products and
  quotients are within \<open>2^-24\<close>, and the C library's \<^verbatim>\<open>tanf\<close> and \<^verbatim>\<open>atanf\<close> within a few
  units in the last place.
\<close>

definition close_to :: "real \<Rightarrow> real \<Rightarrow> real \<Rightarrow> bool" where
  "close_to k x X \<longleftrightarrow> \<bar>x - X\<bar> \<le> k * (1 / 100000) * \<bar>X\<bar>"

definition in_range :: "real \<Rightarrow> bool" where
  "in_range x \<longleftrightarrow> 1 / 1000 \<le> \<bar>x\<bar> \<and> \<bar>x\<bar> \<le> 1000"

definition accurate :: "real fpu \<Rightarrow> bool" where
  "accurate fp \<longleftrightarrow>
     (\<forall>r. in_range r \<longrightarrow> close_to 1 (flit fp r) r) \<and>
     (\<forall>a b. in_range a \<and> in_range b \<longrightarrow> close_to 1 (fmul fp a b) (a * b)) \<and>
     (\<forall>a b. in_range a \<and> in_range b \<longrightarrow> close_to 1 (fdiv fp a b) (a / b)) \<and>
     (\<forall>a. 0 \<le> a \<and> a \<le> 11 / 10 \<longrightarrow> close_to 1 (ftan fp a) (tan a)) \<and>
     (\<forall>a. 0 \<le> a \<and> a \<le> 3 \<longrightarrow> close_to 1 (fatan fp a) (arctan a)) \<and>
     (\<forall>a. fround fp a = round_half_away a)"

text \<open>The exact value of the code's \<^verbatim>\<open>PI / 360\<close>, and the angle the unit computes from a fov.\<close>

definition deg_to_half_rad :: real where
  "deg_to_half_rad = 3.1415927 / 360"

definition half_angle :: "real fpu \<Rightarrow> real \<Rightarrow> real" where
  "half_angle fp fv = fmul fp (fdiv fp (PI fp) (flit fp 360)) fv"

section \<open>Configuration (config.hpp, config.cpp)\<close>

record 'f Settings =
  fov :: 'f
  distance :: 'f
  height :: 'f

record 'f UserConfig =
  hub_cam :: "'f Settings"
  room_cam :: "'f Settings"
  quest_cam :: "'f Settings"
  disable_room_shift :: bool

text \<open>
  The process-wide \<^verbatim>\<open>g_config\<close> is passed explicitly as \<open>g_config\<close>.
  \<^verbatim>\<open>get_config\<close> returns a reference to it. \<^verbatim>\<open>UserConfig::get_settings\<close> is a member
  function: \<open>this\<close> is the object it is called on, and its body reads \<^verbatim>\<open>g_config\<close>.
\<close>

definition get_config :: "'f UserConfig \<Rightarrow> 'f UserConfig" where
  "get_config g_config = g_config"

definition get_settings :: "'f UserConfig \<Rightarrow> 'f UserConfig \<Rightarrow> Context \<Rightarrow> 'f Settings" where
  "get_settings g_config this ctx =
     (case ctx of
        Hub \<Rightarrow> hub_cam g_config
      | Room \<Rightarrow> room_cam g_config
      | Quest \<Rightarrow> quest_cam g_config)"

section \<open>Camera parameters (camera.cpp)\<close>

record 'f Params =
  fov :: 'f
  distance :: 'f
  height :: 'f
  shift :: 'f

definition default_hub_params :: "'f fpu \<Rightarrow> 'f Params" where
  "default_hub_params fp =
     \<lparr>fov = flit fp 53, distance = flit fp 350, height = flit fp 170, shift = flit fp 0\<rparr>"

definition default_room_params :: "'f fpu \<Rightarrow> 'f Params" where
  "default_room_params fp =
     \<lparr>fov = flit fp 51, distance = flit fp 260, height = flit fp 160, shift = flit fp (- 50)\<rparr>"

definition default_quest_params :: "'f fpu \<Rightarrow> 'f Params" where
  "default_quest_params fp =
     \<lparr>fov = flit fp 53, distance = flit fp 380, height = flit fp 180, shift = flit fp 0\<rparr>"

text \<open>The \<^verbatim>\<open>switch\<close> covers the three enumerators; the datatype has no other value.\<close>

definition from_context :: "'f fpu \<Rightarrow> Context \<Rightarrow> 'f Params" where
  "from_context fp ctx =
     (case ctx of
        Hub \<Rightarrow> default_hub_params fp
      | Room \<Rightarrow> default_room_params fp
      | Quest \<Rightarrow> default_quest_params fp)"

definition adjust :: "'f fpu \<Rightarrow> 'f UserConfig \<Rightarrow> State \<Rightarrow> 'f Params \<Rightarrow> 'f Params" where
  "adjust fp g_config state this =
     (if camera_id state = SurveyorSet then this
      else
        let config = get_config g_config;
            settings = get_settings g_config config (context state);
            base_params = from_context fp (context state);
            current_proj = proj_scale_from_fov fp (fov this);
            base_proj = proj_scale_from_fov fp (fov base_params);
            target_proj = proj_scale_from_fov fp (Settings.fov settings);
            adjusted_fov =
              fov_from_proj_scale fp (fdiv fp (fmul fp target_proj current_proj) base_proj);
            disable_shift = (disable_room_shift config \<and> sets_room_context (camera_id state))
        in \<lparr>fov = fround fp adjusted_fov,
            distance = fround fp (fmul fp (distance this) (Settings.distance settings)),
            height = fround fp (fmul fp (height this) (Settings.height settings)),
            shift = (if disable_shift then flit fp 0 else shift this)\<rparr>)"

section \<open>Memory (camera.cpp)\<close>

text \<open>
  The camera object lives in the game's memory, which the code reads and writes through
  \<^verbatim>\<open>reinterpret_cast\<close> at byte offsets. The store is a map from 64-bit addresses
  (\<^verbatim>\<open>uintptr_t\<close> of the 64-bit host; address arithmetic wraps) to bytes. A
  \<^verbatim>\<open>float\<close> or \<^verbatim>\<open>uint32_t\<close> access reads or writes four bytes, least significant
  first. A \<^verbatim>\<open>float\<close> in memory is its IEEE-754 binary32 bit pattern; loading and
  storing it keeps the pattern, and unary minus flips the sign bit.
\<close>

type_synonym address = "64 word"
type_synonym memory = "address \<Rightarrow> 8 word"
type_synonym float32 = "32 word"

definition bytes32 :: "address \<Rightarrow> address set" where
  "bytes32 a = {a, a + 1, a + 2, a + 3}"

definition load32 :: "memory \<Rightarrow> address \<Rightarrow> 32 word" where
  "load32 mem a =
     ucast (mem a) OR push_bit 8 (ucast (mem (a + 1))) OR
     push_bit 16 (ucast (mem (a + 2))) OR push_bit 24 (ucast (mem (a + 3)))"

definition store32 :: "memory \<Rightarrow> address \<Rightarrow> 32 word \<Rightarrow> memory" where
  "store32 mem a w =
     mem(a := ucast w, a + 1 := ucast (drop_bit 8 w),
         a + 2 := ucast (drop_bit 16 w), a + 3 := ucast (drop_bit 24 w))"

definition fneg :: "float32 \<Rightarrow> float32" where
  "fneg w = w XOR 0x80000000"

definition from_memory :: "memory \<Rightarrow> address \<Rightarrow> float32 Params" where
  "from_memory mem view_params =
     \<lparr>fov = load32 mem (view_params + 0x20),
      distance = fneg (load32 mem (view_params + 0x18)),
      height = load32 mem (view_params + 0x14),
      shift = load32 mem (view_params + 0x10)\<rparr>"

definition to_memory :: "float32 Params \<Rightarrow> address \<Rightarrow> memory \<Rightarrow> memory" where
  "to_memory this view_params mem =
     (let m1 = store32 mem (view_params + 0x20) (fov this);
          m2 = store32 m1 (view_params + 0x18) (fneg (distance this));
          m3 = store32 m2 (view_params + 0x14) (height this)
      in store32 m3 (view_params + 0x10) (shift this))"

text \<open>
  \<^verbatim>\<open>camera::update\<close>, the entry point. Its effects are the new \<^verbatim>\<open>g_state\<close> and the
  new memory; both are returned. The line it hands to the logging collaborator
  (\<^verbatim>\<open>log_adjustment\<close>) changes neither and is not part of the model.
\<close>

definition camera_update ::
  "float32 fpu \<Rightarrow> float32 UserConfig \<Rightarrow> State \<Rightarrow> address \<Rightarrow> memory \<Rightarrow> State \<times> memory" where
  "camera_update fp g_config g_state camera_address mem =
     (let param_address = camera_address + 0x5d0;
          current_params = from_memory mem param_address;
          cam_id = load32 mem (camera_address + 0x13b8);
          state = State_update g_state cam_id;
          new_params = adjust fp g_config state current_params
      in (state, to_memory new_params param_address mem))"

text \<open>The bytes of the four parameter fields of the camera object at an address.\<close>

definition param_field_bytes :: "address \<Rightarrow> address set" where
  "param_field_bytes camera_address =
     bytes32 (camera_address + 0x5d0 + 0x10) \<union> bytes32 (camera_address + 0x5d0 + 0x14) \<union>
     bytes32 (camera_address + 0x5d0 + 0x18) \<union> bytes32 (camera_address + 0x5d0 + 0x20)"

section \<open>The classifier\<close>

lemmas CameraID_defs =
  Normal_def Sprint_def Combat_def BaseHub_def BaseHubSprint_def LivingQuarters_def
  PrivateQuarters_def PrivateSuite_def SurveyorSet_def Seliana_def SelianaSprint_def
  SelianaHub_def SelianaHubSprint_def SelianaRoom_def

lemma sets_hub_context_iff:
  "sets_hub_context i \<longleftrightarrow> i = 85 \<or> i = 86 \<or> i = 252 \<or> i = 253 \<or> i = 254 \<or> i = 255"
  by (auto simp: sets_hub_context_def set_hub_context_ids_def CameraID_defs)

lemma sets_room_context_iff:
  "sets_room_context i \<longleftrightarrow> i = 118 \<or> i = 119 \<or> i = 120 \<or> i = 256"
  by (auto simp: sets_room_context_def set_room_context_ids_def CameraID_defs)

lemma sets_quest_context_iff:
  "sets_quest_context i \<longleftrightarrow> i = 0 \<or> i = 3 \<or> i = 83"
  by (auto simp: sets_quest_context_def set_quest_context_ids_def CameraID_defs)

lemma hub_not_room: "sets_hub_context i \<Longrightarrow> \<not> sets_room_context i"
  by (auto simp: sets_hub_context_iff sets_room_context_iff)

lemma hub_not_quest: "sets_hub_context i \<Longrightarrow> \<not> sets_quest_context i"
  by (auto simp: sets_hub_context_iff sets_quest_context_iff)

lemma room_not_quest: "sets_room_context i \<Longrightarrow> \<not> sets_quest_context i"
  by (auto simp: sets_room_context_iff sets_quest_context_iff)

text \<open>
  C3. For every camera identifier and every prior tracker state, the classifier update
  sets the context to Hub if the identifier is in the hub set, to Room if it is in the
  room set, to Quest if it is in the quest set, and leaves the context as it was for an
  identifier in none of the three sets; in every case the tracked identifier becomes
  the new one.
\<close>

theorem State_update_classifies:
  "(sets_hub_context i \<longrightarrow> context (State_update s i) = Hub) \<and>
   (sets_room_context i \<longrightarrow> context (State_update s i) = Room) \<and>
   (sets_quest_context i \<longrightarrow> context (State_update s i) = Quest) \<and>
   (\<not> sets_hub_context i \<and> \<not> sets_room_context i \<and> \<not> sets_quest_context i \<longrightarrow>
      context (State_update s i) = context s) \<and>
   camera_id (State_update s i) = i"
  using hub_not_room [of i] hub_not_quest [of i] room_not_quest [of i]
  by (auto simp: State_update_def Let_def)

theorem State_update_classifies_witness:
  "sets_hub_context 85 \<and> context (State_update \<lparr>context = Quest, camera_id = 0\<rparr> 85) = Hub \<and>
   sets_room_context 120 \<and> context (State_update \<lparr>context = Quest, camera_id = 0\<rparr> 120) = Room \<and>
   sets_quest_context 3 \<and> context (State_update \<lparr>context = Room, camera_id = 120\<rparr> 3) = Quest \<and>
   \<not> sets_hub_context 147 \<and> \<not> sets_room_context 147 \<and> \<not> sets_quest_context 147 \<and>
   context (State_update \<lparr>context = Room, camera_id = 120\<rparr> 147) = Room \<and>
   camera_id (State_update \<lparr>context = Room, camera_id = 120\<rparr> 147) = 147"
  using State_update_classifies [of 85 "\<lparr>context = Quest, camera_id = 0\<rparr>"]
    State_update_classifies [of 120 "\<lparr>context = Quest, camera_id = 0\<rparr>"]
    State_update_classifies [of 3 "\<lparr>context = Room, camera_id = 120\<rparr>"]
    State_update_classifies [of 147 "\<lparr>context = Room, camera_id = 120\<rparr>"]
  by (simp add: sets_hub_context_iff sets_room_context_iff sets_quest_context_iff)

text \<open>
  On a state that \<^verbatim>\<open>State::update\<close> has produced, a tracked room identifier means the
  context is Room. The converse fails: an identifier in none of the sets leaves a Room
  context in place.
\<close>

lemma room_id_has_Room_context:
  "sets_room_context (camera_id (State_update s i)) \<Longrightarrow> context (State_update s i) = Room"
  using room_not_quest [of i] by (auto simp: State_update_def Let_def)

section \<open>Configuration lookup\<close>

text \<open>
  C10. \<^verbatim>\<open>UserConfig::get_settings\<close> ignores the object it is called on: for every
  configuration \<open>c\<close> it is invoked on and every context, it returns the field of the
  process-wide configuration \<open>g\<close> for that context (\<open>hub_cam\<close>, \<open>room_cam\<close> or
  \<open>quest_cam\<close>), whatever \<open>c\<close> holds.
\<close>

theorem get_settings_global:
  "get_settings g c Hub = hub_cam g \<and> get_settings g c Room = room_cam g \<and>
   get_settings g c Quest = quest_cam g \<and> get_settings g c ctx = get_settings g c' ctx"
  by (simp add: get_settings_def)

text \<open>The result differs from the object's own field as soon as the two objects differ.\<close>

lemma get_settings_not_own:
  "hub_cam g \<noteq> hub_cam c \<Longrightarrow> get_settings g c Hub \<noteq> hub_cam c"
  by (simp add: get_settings_def)

section \<open>The parameter transform\<close>

text \<open>
  C2. For every input parameter tuple, every configuration and every tracker state whose
  tracked identifier is the surveyor identifier (SurveyorSet, 147), \<^verbatim>\<open>adjust\<close> returns
  its input unchanged in all four fields. The float type is arbitrary here: at
  \<open>float32\<close>, the bit patterns are equal.
\<close>

theorem adjust_surveyor: "camera_id st = SurveyorSet \<Longrightarrow> adjust fp g st p = p"
  by (simp add: adjust_def)

theorem adjust_surveyor_witness:
  "camera_id \<lparr>context = Quest, camera_id = 147\<rparr> = SurveyorSet \<and>
   adjust exact_fpu
     \<lparr>hub_cam = \<lparr>Settings.fov = 90, distance = 2, height = 3\<rparr>,
      room_cam = \<lparr>Settings.fov = 90, distance = 2, height = 3\<rparr>,
      quest_cam = \<lparr>Settings.fov = 90, distance = 2, height = 3\<rparr>,
      disable_room_shift = True\<rparr>
     \<lparr>context = Quest, camera_id = 147\<rparr>
     \<lparr>fov = 40, distance = 500, height = 100, shift = - 25\<rparr> =
   \<lparr>fov = 40, distance = 500, height = 100, shift = - 25\<rparr>"
proof -
  have s: "camera_id \<lparr>context = Quest, camera_id = 147\<rparr> = SurveyorSet"
    by (simp add: SurveyorSet_def)
  from s adjust_surveyor [OF s] show ?thesis by simp
qed

text \<open>
  C4. For every non-surveyor state, the adjusted fov is the rounding (\<^verbatim>\<open>std::round\<close>) of
  \<open>fov_from_proj_scale (proj_scale_from_fov settings.fov * proj_scale_from_fov raw.fov /
  proj_scale_from_fov baseline.fov)\<close>, where \<open>proj_scale_from_fov fov = tan (PI / 360 * fov)\<close>
  and \<open>fov_from_proj_scale proj = 360 / PI * atan proj\<close>, whatever the float unit computes
  for each operation.
\<close>

theorem adjust_fov_formula:
  "camera_id st \<noteq> SurveyorSet \<Longrightarrow>
   fov (adjust fp g st p) =
     fround fp (fov_from_proj_scale fp
       (fdiv fp
          (fmul fp (proj_scale_from_fov fp (Settings.fov (get_settings g (get_config g) (context st))))
                   (proj_scale_from_fov fp (fov p)))
          (proj_scale_from_fov fp (fov (from_context fp (context st)))))) \<and>
   proj_scale_from_fov fp x = ftan fp (fmul fp (fdiv fp (PI fp) (flit fp 360)) x) \<and>
   fov_from_proj_scale fp y = fmul fp (fdiv fp (flit fp 360) (PI fp)) (fatan fp y)"
  by (simp add: adjust_def Let_def proj_scale_from_fov_def fov_from_proj_scale_def)

text \<open>Facts of the exact unit: its operations, and the projection scale on the fov range.\<close>

lemma exact_fpu_simps:
  "flit exact_fpu r = r" "fmul exact_fpu a b = a * b" "fdiv exact_fpu a b = a / b"
  "ftan exact_fpu a = tan a" "fatan exact_fpu a = arctan a"
  "fround exact_fpu a = round_half_away a"
  by (simp_all add: exact_fpu_def)

lemma pi_ge_3: "3 \<le> pi"
  using sin_x_le_x [of "pi / 6"] by (simp add: sin_30)

lemma exact_angle_bounds:
  assumes "0 \<le> x" "x \<le> 120"
  shows "- (pi / 2) < 3.1415927 / 360 * x" "3.1415927 / 360 * x < pi / 2"
proof -
  have "0 \<le> 3.1415927 / 360 * x" using assms by simp
  then show "- (pi / 2) < 3.1415927 / 360 * x"
    using pi_gt_zero by linarith
  have "3.1415927 / 360 * x \<le> 3.1415927 / 360 * 120" using assms by simp
  then show "3.1415927 / 360 * x < pi / 2" using pi_ge_3 by simp
qed

lemma exact_roundtrip:
  assumes "0 \<le> x" "x \<le> 120"
  shows "fov_from_proj_scale exact_fpu (proj_scale_from_fov exact_fpu x) = x"
  using exact_angle_bounds [OF assms]
  by (simp add: fov_from_proj_scale_def proj_scale_from_fov_def exact_fpu_def PI_def arctan_tan)

lemma exact_proj_pos:
  assumes "0 < x" "x \<le> 120"
  shows "0 < proj_scale_from_fov exact_fpu x"
proof -
  have "0 < 3.1415927 / 360 * x" using assms by simp
  moreover have "3.1415927 / 360 * x < pi / 2"
    using exact_angle_bounds(2) [of x] assms by simp
  ultimately show ?thesis
    by (simp add: proj_scale_from_fov_def exact_fpu_def PI_def tan_gt_zero)
qed

text \<open>
  The scenario of the specification, on the exact unit: quest camera, raw fov 53 (the
  baseline), target fov 70.
\<close>

theorem adjust_fov_formula_witness:
  "camera_id g_state_init \<noteq> SurveyorSet \<and>
   fov (adjust exact_fpu
     \<lparr>hub_cam = \<lparr>Settings.fov = 53, distance = 1, height = 1\<rparr>,
      room_cam = \<lparr>Settings.fov = 53, distance = 1, height = 1\<rparr>,
      quest_cam = \<lparr>Settings.fov = 70, distance = 1.2, height = 1\<rparr>,
      disable_room_shift = False\<rparr>
     g_state_init
     \<lparr>fov = 53, distance = 380, height = 180, shift = 0\<rparr>) = 70"
proof -
  let ?g = "\<lparr>hub_cam = \<lparr>Settings.fov = 53, distance = 1, height = 1\<rparr>,
      room_cam = \<lparr>Settings.fov = 53, distance = 1, height = 1\<rparr>,
      quest_cam = \<lparr>Settings.fov = 70, distance = 1.2, height = 1\<rparr>,
      disable_room_shift = False\<rparr> :: real UserConfig"
  let ?p = "\<lparr>fov = 53, distance = 380, height = 180, shift = 0\<rparr> :: real Params"
  have n: "camera_id g_state_init \<noteq> SurveyorSet"
    by (simp add: g_state_init_def CameraID_defs)
  have b: "0 < proj_scale_from_fov exact_fpu 53"
    by (rule exact_proj_pos) simp_all
  have r: "fov_from_proj_scale exact_fpu (proj_scale_from_fov exact_fpu 70) = 70"
    by (rule exact_roundtrip) simp_all
  have "fov (adjust exact_fpu ?g g_state_init ?p) =
      fround exact_fpu (fov_from_proj_scale exact_fpu
        (fdiv exact_fpu
          (fmul exact_fpu (proj_scale_from_fov exact_fpu 70) (proj_scale_from_fov exact_fpu 53))
          (proj_scale_from_fov exact_fpu 53)))"
    using adjust_fov_formula [OF n, of exact_fpu ?g ?p]
    by (simp add: g_state_init_def get_settings_def get_config_def from_context_def
        default_quest_params_def exact_fpu_simps)
  also have "\<dots> = fround exact_fpu (fov_from_proj_scale exact_fpu (proj_scale_from_fov exact_fpu 70))"
    using b by (simp add: exact_fpu_simps)
  also have "\<dots> = 70"
    by (simp add: r exact_fpu_simps round_half_away_def)
  finally show ?thesis using n by simp
qed

text \<open>
  C6. For every non-surveyor state, the adjusted distance is the rounding of the raw
  distance times the context's distance scale, and the adjusted height the rounding of
  the raw height times the context's height scale.
\<close>

theorem adjust_distance_height:
  "camera_id st \<noteq> SurveyorSet \<Longrightarrow>
   distance (adjust fp g st p) =
     fround fp (fmul fp (distance p) (Settings.distance (get_settings g (get_config g) (context st)))) \<and>
   height (adjust fp g st p) =
     fround fp (fmul fp (height p) (Settings.height (get_settings g (get_config g) (context st))))"
  by (simp add: adjust_def Let_def)

theorem adjust_distance_height_witness:
  "camera_id g_state_init \<noteq> SurveyorSet \<and>
   distance (adjust exact_fpu
     \<lparr>hub_cam = \<lparr>Settings.fov = 53, distance = 1, height = 1\<rparr>,
      room_cam = \<lparr>Settings.fov = 53, distance = 1, height = 1\<rparr>,
      quest_cam = \<lparr>Settings.fov = 70, distance = 1.2, height = 1\<rparr>,
      disable_room_shift = False\<rparr>
     g_state_init
     \<lparr>fov = 53, distance = 380, height = 180, shift = 0\<rparr>) = 456 \<and>
   height (adjust exact_fpu
     \<lparr>hub_cam = \<lparr>Settings.fov = 53, distance = 1, height = 1\<rparr>,
      room_cam = \<lparr>Settings.fov = 53, distance = 1, height = 1\<rparr>,
      quest_cam = \<lparr>Settings.fov = 70, distance = 1.2, height = 1\<rparr>,
      disable_room_shift = False\<rparr>
     g_state_init
     \<lparr>fov = 53, distance = 380, height = 180, shift = 0\<rparr>) = 180"
proof -
  have n: "camera_id g_state_init \<noteq> SurveyorSet"
    by (simp add: g_state_init_def CameraID_defs)
  show ?thesis
    using n adjust_distance_height [OF n, of exact_fpu
        "\<lparr>hub_cam = \<lparr>Settings.fov = 53, distance = 1, height = 1\<rparr>,
          room_cam = \<lparr>Settings.fov = 53, distance = 1, height = 1\<rparr>,
          quest_cam = \<lparr>Settings.fov = 70, distance = 1.2, height = 1\<rparr>,
          disable_room_shift = False\<rparr>"
        "\<lparr>fov = 53, distance = 380, height = 180, shift = 0\<rparr>"]
    by (simp add: g_state_init_def get_settings_def get_config_def exact_fpu_simps
        round_half_away_def)
qed

text \<open>
  C1 (amended). For every non-surveyor state, \<^verbatim>\<open>adjust\<close> returns the shift \<open>0.0\<close> when
  \<open>disable_room_shift\<close> is set and the tracked camera identifier is in the room set;
  in every other case the shift is the input shift. The test is on the identifier, not
  on the tracked context.
\<close>

theorem adjust_shift:
  "camera_id st \<noteq> SurveyorSet \<Longrightarrow>
   shift (adjust fp g st p) =
     (if disable_room_shift g \<and> sets_room_context (camera_id st) then flit fp 0 else shift p)"
  by (simp add: adjust_def Let_def get_config_def)

theorem adjust_shift_witness:
  "camera_id \<lparr>context = Room, camera_id = PrivateSuite\<rparr> \<noteq> SurveyorSet \<and>
   shift (adjust exact_fpu
     \<lparr>hub_cam = \<lparr>Settings.fov = 53, distance = 1, height = 1\<rparr>,
      room_cam = \<lparr>Settings.fov = 53, distance = 1, height = 1\<rparr>,
      quest_cam = \<lparr>Settings.fov = 53, distance = 1, height = 1\<rparr>,
      disable_room_shift = True\<rparr>
     \<lparr>context = Room, camera_id = PrivateSuite\<rparr>
     \<lparr>fov = 51, distance = 260, height = 160, shift = - 50\<rparr>) = 0 \<and>
   shift (adjust exact_fpu
     \<lparr>hub_cam = \<lparr>Settings.fov = 53, distance = 1, height = 1\<rparr>,
      room_cam = \<lparr>Settings.fov = 53, distance = 1, height = 1\<rparr>,
      quest_cam = \<lparr>Settings.fov = 53, distance = 1, height = 1\<rparr>,
      disable_room_shift = False\<rparr>
     \<lparr>context = Room, camera_id = PrivateSuite\<rparr>
     \<lparr>fov = 51, distance = 260, height = 160, shift = - 50\<rparr>) = - 50"
proof -
  have n: "camera_id \<lparr>context = Room, camera_id = PrivateSuite\<rparr> \<noteq> SurveyorSet"
    by (simp add: CameraID_defs)
  show ?thesis
    using n adjust_shift [OF n, of exact_fpu
        "\<lparr>hub_cam = \<lparr>Settings.fov = 53, distance = 1, height = 1\<rparr>,
          room_cam = \<lparr>Settings.fov = 53, distance = 1, height = 1\<rparr>,
          quest_cam = \<lparr>Settings.fov = 53, distance = 1, height = 1\<rparr>,
          disable_room_shift = True\<rparr>"
        "\<lparr>fov = 51, distance = 260, height = 160, shift = - 50\<rparr>"]
      adjust_shift [OF n, of exact_fpu
        "\<lparr>hub_cam = \<lparr>Settings.fov = 53, distance = 1, height = 1\<rparr>,
          room_cam = \<lparr>Settings.fov = 53, distance = 1, height = 1\<rparr>,
          quest_cam = \<lparr>Settings.fov = 53, distance = 1, height = 1\<rparr>,
          disable_room_shift = False\<rparr>"
        "\<lparr>fov = 51, distance = 260, height = 160, shift = - 50\<rparr>"]
    by (simp add: sets_room_context_iff exact_fpu_simps CameraID_defs)
qed

text \<open>
  C1 as stated fails: after a room camera (PrivateSuite) and then an identifier in none
  of the sets (1), the tracked context is still Room; with \<open>disable_room_shift\<close> set the
  shift \<open>-50\<close> passes through.
\<close>

theorem adjust_shift_room_context_counterexample:
  "context (State_update (State_update g_state_init PrivateSuite) 1) = Room \<and>
   camera_id (State_update (State_update g_state_init PrivateSuite) 1) \<noteq> SurveyorSet \<and>
   disable_room_shift
     \<lparr>hub_cam = \<lparr>Settings.fov = 53, distance = 1, height = 1\<rparr>,
      room_cam = \<lparr>Settings.fov = 53, distance = 1, height = 1\<rparr>,
      quest_cam = \<lparr>Settings.fov = 53, distance = 1, height = 1\<rparr>,
      disable_room_shift = True\<rparr> \<and>
   shift (adjust exact_fpu
     \<lparr>hub_cam = \<lparr>Settings.fov = 53, distance = 1, height = 1\<rparr>,
      room_cam = \<lparr>Settings.fov = 53, distance = 1, height = 1\<rparr>,
      quest_cam = \<lparr>Settings.fov = 53, distance = 1, height = 1\<rparr>,
      disable_room_shift = True\<rparr>
     (State_update (State_update g_state_init PrivateSuite) 1)
     \<lparr>fov = 51, distance = 260, height = 160, shift = - 50\<rparr>) = - 50 \<and>
   (- 50 :: real) \<noteq> flit exact_fpu 0"
  by (simp add: State_update_def Let_def g_state_init_def sets_hub_context_iff
      sets_room_context_iff sets_quest_context_iff CameraID_defs adjust_def get_config_def
      exact_fpu_simps)

text \<open>
  Whatever the float unit, the adjusted fov of a non-surveyor state is a value that
  \<^verbatim>\<open>std::round\<close> returned.
\<close>

lemma adjust_fov_rounded:
  "camera_id st \<noteq> SurveyorSet \<Longrightarrow> \<exists>r. fov (adjust fp g st p) = fround fp r"
  by (auto simp: adjust_def Let_def)

subsection \<open>Relative error\<close>

lemma close_to_refl: "0 \<le> k \<Longrightarrow> close_to k X X"
  by (simp add: close_to_def)

lemma close_to_mono: "close_to k x X \<Longrightarrow> k \<le> k' \<Longrightarrow> close_to k' x X"
proof -
  assume a: "close_to k x X" and b: "k \<le> k'"
  have "k * (1 / 100000) * \<bar>X\<bar> \<le> k' * (1 / 100000) * \<bar>X\<bar>"
    using b by (intro mult_right_mono) simp_all
  with a show ?thesis unfolding close_to_def by linarith
qed

lemma close_to_abs_le:
  assumes "close_to k x X" "0 \<le> k"
  shows "\<bar>x\<bar> \<le> (1 + k / 100000) * \<bar>X\<bar>"
proof -
  have "\<bar>x\<bar> \<le> \<bar>X\<bar> + \<bar>x - X\<bar>" by linarith
  also have "\<dots> \<le> \<bar>X\<bar> + k * (1 / 100000) * \<bar>X\<bar>"
    using assms by (simp add: close_to_def)
  finally show ?thesis by (simp add: algebra_simps)
qed

lemma close_to_abs_ge:
  assumes "close_to k x X"
  shows "(1 - k / 100000) * \<bar>X\<bar> \<le> \<bar>x\<bar>"
proof -
  have "\<bar>X\<bar> \<le> \<bar>x\<bar> + \<bar>x - X\<bar>" by linarith
  also have "\<dots> \<le> \<bar>x\<bar> + k * (1 / 100000) * \<bar>X\<bar>"
    using assms by (simp add: close_to_def)
  finally show ?thesis by (simp add: algebra_simps)
qed

lemma close_to_mult:
  assumes x: "close_to m x X" and y: "close_to n y Y"
    and m: "0 \<le> m" and n: "0 \<le> n" and mn: "m * n \<le> 100000"
  shows "close_to (m + n + 1) (x * y) (X * Y)"
proof -
  let ?e = "1 / 100000 :: real"
  have "x * y - X * Y = (x - X) * y + X * (y - Y)" by (simp add: algebra_simps)
  then have "\<bar>x * y - X * Y\<bar> \<le> \<bar>x - X\<bar> * \<bar>y\<bar> + \<bar>X\<bar> * \<bar>y - Y\<bar>"
    by (metis abs_mult abs_triangle_ineq)
  also have "\<bar>x - X\<bar> * \<bar>y\<bar> \<le> (m * ?e * \<bar>X\<bar>) * ((1 + n / 100000) * \<bar>Y\<bar>)"
    using x close_to_abs_le [OF y n] by (intro mult_mono) (simp_all add: close_to_def m)
  also have "\<bar>X\<bar> * \<bar>y - Y\<bar> \<le> \<bar>X\<bar> * (n * ?e * \<bar>Y\<bar>)"
    using y by (intro mult_left_mono) (simp_all add: close_to_def)
  finally have "\<bar>x * y - X * Y\<bar> \<le> (m + n + m * n * ?e) * ?e * (\<bar>X\<bar> * \<bar>Y\<bar>)"
    by (simp add: algebra_simps)
  also have "\<dots> \<le> (m + n + 1) * ?e * (\<bar>X\<bar> * \<bar>Y\<bar>)"
    using mn by (intro mult_right_mono) simp_all
  finally show ?thesis by (simp add: close_to_def abs_mult)
qed

lemma close_to_divide:
  assumes x: "close_to m x X" and y: "close_to n y Y" and Y: "Y \<noteq> 0"
    and m: "0 \<le> m" and n: "0 \<le> n" and mn: "(m + n + 1) * n \<le> 100000"
  shows "close_to (m + n + 1) (x / y) (X / Y)"
proof -
  let ?e = "1 / 100000 :: real"
  have n1: "n * ?e < 1"
  proof -
    have "n * n \<le> (m + n + 1) * n"
      using m n by (intro mult_right_mono) simp_all
    with mn have "n * n \<le> 100000" by linarith
    moreover have "100000 * 100000 \<le> n * n" if "100000 \<le> n"
      using that by (intro mult_mono) simp_all
    ultimately have "n < 100000" by fastforce
    then show ?thesis by simp
  qed
  have ylow: "(1 - n * ?e) * \<bar>Y\<bar> \<le> \<bar>y\<bar>"
    using close_to_abs_ge [OF y] by simp
  have ypos: "0 < \<bar>y\<bar>"
  proof -
    have "0 < (1 - n * ?e) * \<bar>Y\<bar>" using n1 Y by simp
    with ylow show ?thesis by linarith
  qed
  then have y0: "y \<noteq> 0" by auto
  have eq: "x / y - X / Y = ((x - X) * Y - X * (y - Y)) / (y * Y)"
    using y0 Y by (simp add: field_simps)
  have num: "\<bar>(x - X) * Y - X * (y - Y)\<bar> \<le> (m + n) * ?e * (\<bar>X\<bar> * \<bar>Y\<bar>)"
  proof -
    have "\<bar>(x - X) * Y - X * (y - Y)\<bar> \<le> \<bar>x - X\<bar> * \<bar>Y\<bar> + \<bar>X\<bar> * \<bar>y - Y\<bar>"
      by (metis abs_mult abs_triangle_ineq4)
    also have "\<bar>x - X\<bar> * \<bar>Y\<bar> \<le> (m * ?e * \<bar>X\<bar>) * \<bar>Y\<bar>"
      using x by (intro mult_right_mono) (simp_all add: close_to_def)
    also have "\<bar>X\<bar> * \<bar>y - Y\<bar> \<le> \<bar>X\<bar> * (n * ?e * \<bar>Y\<bar>)"
      using y by (intro mult_left_mono) (simp_all add: close_to_def)
    finally show ?thesis by (simp add: algebra_simps)
  qed
  have key: "(m + n) * \<bar>Y\<bar> \<le> (m + n + 1) * \<bar>y\<bar>"
  proof -
    have "(m + n) \<le> (m + n + 1) * (1 - n * ?e)"
      using mn by (simp add: algebra_simps)
    then have "(m + n) * \<bar>Y\<bar> \<le> (m + n + 1) * (1 - n * ?e) * \<bar>Y\<bar>"
      by (intro mult_right_mono) simp_all
    also have "\<dots> \<le> (m + n + 1) * \<bar>y\<bar>"
      using ylow m n by (simp add: mult.assoc mult_left_mono)
    finally show ?thesis .
  qed
  have "\<bar>x / y - X / Y\<bar> = \<bar>(x - X) * Y - X * (y - Y)\<bar> / (\<bar>y\<bar> * \<bar>Y\<bar>)"
    by (simp add: eq abs_mult)
  also have "\<dots> \<le> ((m + n) * ?e * (\<bar>X\<bar> * \<bar>Y\<bar>)) / (\<bar>y\<bar> * \<bar>Y\<bar>)"
    using num ypos Y by (intro divide_right_mono) simp_all
  also have "\<dots> = ?e * \<bar>X\<bar> * ((m + n) * \<bar>Y\<bar>) / (\<bar>y\<bar> * \<bar>Y\<bar>)"
    by (simp add: algebra_simps)
  also have "\<dots> \<le> ?e * \<bar>X\<bar> * ((m + n + 1) * \<bar>y\<bar>) / (\<bar>y\<bar> * \<bar>Y\<bar>)"
    using key ypos Y by (intro divide_right_mono mult_left_mono) simp_all
  also have "\<dots> = (m + n + 1) * ?e * (\<bar>X\<bar> / \<bar>Y\<bar>)"
    using ypos Y by (simp add: field_simps)
  finally show ?thesis by (simp add: close_to_def)
qed

lemma close_to_trans:
  assumes x: "close_to m x y" and y: "close_to n y z"
    and m: "0 \<le> m" and n: "0 \<le> n" and mn: "m * n \<le> 100000"
  shows "close_to (m + n + 1) x z"
proof -
  let ?e = "1 / 100000 :: real"
  have "\<bar>x - z\<bar> \<le> \<bar>x - y\<bar> + \<bar>y - z\<bar>" by linarith
  also have "\<bar>x - y\<bar> \<le> m * ?e * ((1 + n / 100000) * \<bar>z\<bar>)"
  proof -
    have "\<bar>x - y\<bar> \<le> m * ?e * \<bar>y\<bar>" using x by (simp add: close_to_def)
    also have "\<dots> \<le> m * ?e * ((1 + n / 100000) * \<bar>z\<bar>)"
      using close_to_abs_le [OF y n] m by (intro mult_left_mono) simp_all
    finally show ?thesis .
  qed
  also have "\<bar>y - z\<bar> \<le> n * ?e * \<bar>z\<bar>" using y by (simp add: close_to_def)
  finally have "\<bar>x - z\<bar> \<le> (m + n + m * n * ?e) * ?e * \<bar>z\<bar>"
    by (simp add: algebra_simps)
  also have "\<dots> \<le> (m + n + 1) * ?e * \<bar>z\<bar>"
    using mn by (intro mult_right_mono) simp_all
  finally show ?thesis by (simp add: close_to_def)
qed

lemma close_to_bounds:
  assumes "close_to k x X" "0 \<le> X"
  shows "(1 - k / 100000) * X \<le> x" "x \<le> (1 + k / 100000) * X"
proof -
  have "\<bar>x - X\<bar> \<le> k / 100000 * X"
    using assms by (simp add: close_to_def)
  then have "x - X \<le> k / 100000 * X" "X - x \<le> k / 100000 * X"
    by linarith+
  then show "(1 - k / 100000) * X \<le> x" "x \<le> (1 + k / 100000) * X"
    by (simp_all add: algebra_simps)
qed

lemma close_to_in_range:
  assumes c: "close_to k x X" and k: "0 \<le> k" "k \<le> 1000"
    and X: "2 / 1000 \<le> \<bar>X\<bar>" "\<bar>X\<bar> \<le> 900"
  shows "in_range x"
proof -
  have "\<bar>x\<bar> \<le> (1 + k / 100000) * \<bar>X\<bar>" by (rule close_to_abs_le [OF c k(1)])
  also have "\<dots> \<le> (1 + 1 / 100) * \<bar>X\<bar>"
    using k by (intro mult_right_mono) simp_all
  finally have hi: "\<bar>x\<bar> \<le> 1000" using X by simp
  have "(1 - 1 / 100) * \<bar>X\<bar> \<le> (1 - k / 100000) * \<bar>X\<bar>"
    using k by (intro mult_right_mono) simp_all
  also have "\<dots> \<le> \<bar>x\<bar>" by (rule close_to_abs_ge [OF c])
  finally have "1 / 1000 \<le> \<bar>x\<bar>" using X by simp
  with hi show ?thesis by (simp add: in_range_def)
qed

lemma accurateD:
  assumes "accurate fp"
  shows "in_range r \<Longrightarrow> close_to 1 (flit fp r) r"
    and "in_range a \<Longrightarrow> in_range b \<Longrightarrow> close_to 1 (fmul fp a b) (a * b)"
    and "in_range a \<Longrightarrow> in_range b \<Longrightarrow> close_to 1 (fdiv fp a b) (a / b)"
    and "0 \<le> a \<Longrightarrow> a \<le> 11 / 10 \<Longrightarrow> close_to 1 (ftan fp a) (tan a)"
    and "0 \<le> a \<Longrightarrow> a \<le> 3 \<Longrightarrow> close_to 1 (fatan fp a) (arctan a)"
    and "fround fp a = round_half_away a"
  using assms unfolding accurate_def by blast+

subsection \<open>Tangent and arc tangent\<close>

lemma arctan_diff_le:
  fixes a b :: real
  assumes "a \<le> b"
  shows "arctan b - arctan a \<le> b - a"
proof -
  have "a - arctan a \<le> b - arctan b"
  proof (rule DERIV_nonneg_imp_nondecreasing [OF assms, where f = "\<lambda>x. x - arctan x"])
    fix x :: real
    have le: "inverse (1 + x\<^sup>2) \<le> 1"
      by (simp add: inverse_le_1_iff)
    have "((\<lambda>x. x - arctan x) has_real_derivative (1 - inverse (1 + x\<^sup>2))) (at x)"
      by (rule DERIV_diff [OF DERIV_ident DERIV_arctan])
    with le show "\<exists>y. ((\<lambda>x. x - arctan x) has_real_derivative y) (at x) \<and> 0 \<le> y"
      by (intro exI [of _ "1 - inverse (1 + x\<^sup>2)"]) simp
  qed
  then show ?thesis by linarith
qed

lemma arctan_lipschitz: "\<bar>arctan a - arctan b\<bar> \<le> \<bar>a - b\<bar>" for a b :: real
proof (cases "a \<le> b")
  case True
  then show ?thesis
    using arctan_diff_le [of a b] arctan_monotone' [of a b] by linarith
next
  case False
  then show ?thesis
    using arctan_diff_le [of b a] arctan_monotone' [of b a] by linarith
qed

lemma tan_ge_self:
  fixes y :: real
  assumes "0 \<le> y" "y < pi / 2"
  shows "y \<le> tan y"
proof -
  have "0 \<le> tan y"
    using assms tan_gt_zero [of y] by (cases "y = 0") auto
  then have "arctan (tan y) - arctan 0 \<le> tan y - 0"
    by (rule arctan_diff_le)
  moreover have "arctan (tan y) = y"
    using assms by (intro arctan_tan) linarith+
  ultimately show ?thesis by simp
qed

lemma cos_lower: "1 - x\<^sup>2 / 2 \<le> cos x" for x :: real
proof -
  have "cos x = 1 - 2 * (sin (x / 2))\<^sup>2"
    using cos_double_sin [of "x / 2"] by simp
  moreover have "(sin (x / 2))\<^sup>2 \<le> (x / 2)\<^sup>2"
    using abs_sin_x_le_abs_x [of "x / 2"] by (metis abs_le_square_iff)
  ultimately show ?thesis by (simp add: power2_eq_square)
qed

lemma tan_upper:
  fixes y :: real
  assumes "0 \<le> y" "y \<le> 11 / 10"
  shows "tan y \<le> 13 / 5"
proof -
  have "y\<^sup>2 \<le> (11 / 10)\<^sup>2" using assms by (intro power_mono) simp_all
  then have c: "79 / 200 \<le> cos y"
    using cos_lower [of y] by (simp add: power2_eq_square)
  have "tan y = sin y / cos y" by (simp add: tan_def)
  also have "\<dots> \<le> 1 / cos y"
    using c by (intro divide_right_mono) simp_all
  also have "\<dots> \<le> 1 / (79 / 200)"
    using c by (intro divide_left_mono) simp_all
  finally show ?thesis by simp
qed

lemma pi_half_gt: "11 / 10 < pi / 2"
  using pi_ge_3 by simp

subsection \<open>The fov at the baseline, on an accurate unit\<close>

text \<open>
  With the raw fov at the baseline, the current and the base projection scale are the same
  float, and the value handed to \<^verbatim>\<open>std::round\<close> is within relative error
  \<open>116 / 100000\<close> of the target: less than 0.14 degrees on the range 30 to 120.
\<close>

lemma deg_to_half_rad_bounds: "872 / 100000 \<le> deg_to_half_rad" "deg_to_half_rad \<le> 873 / 100000"
  by (simp_all add: deg_to_half_rad_def)

lemma PI_over_360_close:
  assumes "accurate fp"
  shows "close_to 5 (fdiv fp (PI fp) (flit fp 360)) deg_to_half_rad"
    and "close_to 5 (fdiv fp (flit fp 360) (PI fp)) (1 / deg_to_half_rad)"
proof -
  have p: "close_to 1 (PI fp) 3.1415927"
    unfolding PI_def by (rule accurateD(1) [OF assms]) (simp add: in_range_def)
  have c: "close_to 1 (flit fp 360) 360"
    by (rule accurateD(1) [OF assms]) (simp add: in_range_def)
  have rp: "in_range (PI fp)"
    by (rule close_to_in_range [OF p]) simp_all
  have rc: "in_range (flit fp 360)"
    by (rule close_to_in_range [OF c]) simp_all
  have "close_to (1 + 1 + 1) (PI fp / flit fp 360) (3.1415927 / 360)"
    by (rule close_to_divide [OF p c]) simp_all
  moreover have "close_to 1 (fdiv fp (PI fp) (flit fp 360)) (PI fp / flit fp 360)"
    by (rule accurateD(3) [OF assms rp rc])
  ultimately have "close_to (1 + 3 + 1) (fdiv fp (PI fp) (flit fp 360)) (3.1415927 / 360)"
    by (intro close_to_trans) simp_all
  then show "close_to 5 (fdiv fp (PI fp) (flit fp 360)) deg_to_half_rad"
    by (simp add: deg_to_half_rad_def)
  have "close_to (1 + 1 + 1) (flit fp 360 / PI fp) (360 / 3.1415927)"
    by (rule close_to_divide [OF c p]) simp_all
  moreover have "close_to 1 (fdiv fp (flit fp 360) (PI fp)) (flit fp 360 / PI fp)"
    by (rule accurateD(3) [OF assms rc rp])
  ultimately have "close_to (1 + 3 + 1) (fdiv fp (flit fp 360) (PI fp)) (360 / 3.1415927)"
    by (intro close_to_trans) simp_all
  then show "close_to 5 (fdiv fp (flit fp 360) (PI fp)) (1 / deg_to_half_rad)"
    by (simp add: deg_to_half_rad_def)
qed

lemma half_angle_close:
  assumes a: "accurate fp" and fv: "29 \<le> fv" "fv \<le> 121"
  shows "close_to 8 (half_angle fp fv) (deg_to_half_rad * fv)"
    and "1 / 4 \<le> half_angle fp fv" and "half_angle fp fv \<le> 11 / 10"
proof -
  let ?k = "fdiv fp (PI fp) (flit fp 360)"
  have k: "close_to 5 ?k deg_to_half_rad" by (rule PI_over_360_close [OF a])
  have rk: "in_range ?k"
    by (rule close_to_in_range [OF k]) (use deg_to_half_rad_bounds in simp_all)
  have rf: "in_range fv" using fv by (simp add: in_range_def)
  have "close_to (5 + 0 + 1) (?k * fv) (deg_to_half_rad * fv)"
    by (rule close_to_mult [OF k close_to_refl]) simp_all
  moreover have "close_to 1 (fmul fp ?k fv) (?k * fv)"
    by (rule accurateD(2) [OF a rk rf])
  ultimately have "close_to (1 + 6 + 1) (fmul fp ?k fv) (deg_to_half_rad * fv)"
    by (intro close_to_trans) simp_all
  then show c: "close_to 8 (half_angle fp fv) (deg_to_half_rad * fv)"
    by (simp add: half_angle_def)
  have lo: "2528 / 10000 \<le> deg_to_half_rad * fv"
  proof -
    have "872 / 100000 * 29 \<le> deg_to_half_rad * fv"
      using deg_to_half_rad_bounds fv by (intro mult_mono) simp_all
    then show ?thesis by simp
  qed
  have hi: "deg_to_half_rad * fv \<le> 10564 / 10000"
  proof -
    have "deg_to_half_rad * fv \<le> 873 / 100000 * 121"
      using deg_to_half_rad_bounds fv by (intro mult_mono) simp_all
    then show ?thesis by simp
  qed
  from close_to_bounds [OF c] lo hi
  show "1 / 4 \<le> half_angle fp fv" "half_angle fp fv \<le> 11 / 10"
    by simp_all
qed

lemma proj_scale_close:
  assumes a: "accurate fp" and fv: "29 \<le> fv" "fv \<le> 121"
  shows "close_to 1 (proj_scale_from_fov fp fv) (tan (half_angle fp fv))"
    and "1 / 4 \<le> tan (half_angle fp fv)" and "tan (half_angle fp fv) \<le> 13 / 5"
    and "in_range (proj_scale_from_fov fp fv)"
    and "1 / 5 \<le> proj_scale_from_fov fp fv" and "proj_scale_from_fov fp fv \<le> 3"
proof -
  let ?y = "half_angle fp fv"
  note y = half_angle_close(2,3) [OF a fv]
  show c: "close_to 1 (proj_scale_from_fov fp fv) (tan ?y)"
    unfolding proj_scale_from_fov_def half_angle_def [symmetric]
    by (rule accurateD(4) [OF a]) (use y in simp_all)
  have "?y \<le> tan ?y"
    by (rule tan_ge_self) (use y pi_half_gt in simp_all)
  with y show lo: "1 / 4 \<le> tan ?y" by simp
  show hi: "tan ?y \<le> 13 / 5"
    by (rule tan_upper) (use y in simp_all)
  show "in_range (proj_scale_from_fov fp fv)"
    by (rule close_to_in_range [OF c]) (use lo hi in simp_all)
  from close_to_bounds [OF c] lo hi
  show "1 / 5 \<le> proj_scale_from_fov fp fv" "proj_scale_from_fov fp fv \<le> 3"
    by simp_all
qed

lemma unrounded_fov_close:
  assumes a: "accurate fp" and t: "30 \<le> t" "t \<le> 120" and b: "29 \<le> b" "b \<le> 121"
  shows "close_to 116
    (fov_from_proj_scale fp
       (fdiv fp (fmul fp (proj_scale_from_fov fp t) (proj_scale_from_fov fp b))
          (proj_scale_from_fov fp b))) t"
proof -
  define T where "T = proj_scale_from_fov fp t"
  define B where "B = proj_scale_from_fov fp b"
  define y where "y = half_angle fp t"
  define \<theta> where "\<theta> = deg_to_half_rad * t"
  define m where "m = fmul fp T B"
  define v where "v = fdiv fp m B"
  define w where "w = fatan fp v"
  define k where "k = fdiv fp (flit fp 360) (PI fp)"
  have t': "29 \<le> t" "t \<le> 121" using t by simp_all
  note pT = proj_scale_close [OF a t', folded T_def y_def]
  note pB = proj_scale_close [OF a b, folded B_def]
  note yc = half_angle_close [OF a t', folded y_def \<theta>_def]
  have B0: "B \<noteq> 0" using pB(5) by simp
  have TB: "1 / 25 \<le> T * B" "T * B \<le> 9"
  proof -
    have "1 / 5 * (1 / 5) \<le> T * B" using pT(5) pB(5) by (intro mult_mono) simp_all
    then show "1 / 25 \<le> T * B" by simp
    have "T * B \<le> 3 * 3" using pT(5,6) pB(5,6) by (intro mult_mono) simp_all
    then show "T * B \<le> 9" by simp
  qed
  \<comment> \<open>the ratio\<close>
  have mc: "close_to 1 m (T * B)"
    unfolding m_def by (rule accurateD(2) [OF a pT(4) pB(4)])
  have rm: "in_range m"
    by (rule close_to_in_range [OF mc]) (use TB in simp_all)
  have "close_to (1 + 0 + 1) (m / B) (T * B / B)"
    by (rule close_to_divide [OF mc close_to_refl B0]) simp_all
  then have "close_to 2 (m / B) T" using B0 by simp
  moreover have "close_to 1 v (m / B)"
    unfolding v_def by (rule accurateD(3) [OF a rm pB(4)])
  ultimately have "close_to (1 + 2 + 1) v T"
    by (intro close_to_trans) simp_all
  then have "close_to (4 + 1 + 1) v (tan y)"
    using pT(1) by (intro close_to_trans) simp_all
  then have vc: "close_to 6 v (tan y)" by simp
  have tany: "0 \<le> tan y" using pT(2) by simp
  from close_to_bounds [OF vc tany] pT(2,3)
  have vr: "0 \<le> v" "v \<le> 3" by simp_all
  \<comment> \<open>the angle recovered by atan\<close>
  have "arctan (tan y) = y"
    by (rule arctan_tan) (use yc(2,3) pi_half_gt in simp_all)
  then have "\<bar>arctan v - y\<bar> \<le> \<bar>v - tan y\<bar>"
    using arctan_lipschitz [of v "tan y"] by simp
  also have "\<dots> \<le> 6 * (1 / 100000) * \<bar>tan y\<bar>"
    using vc by (simp add: close_to_def)
  also have "\<dots> \<le> 16 / 100000"
    using pT(2,3) by simp
  finally have av: "\<bar>arctan v - y\<bar> \<le> 16 / 100000" .
  have th: "2616 / 10000 \<le> \<theta>" "\<theta> \<le> 10476 / 10000"
  proof -
    have "872 / 100000 * 30 \<le> deg_to_half_rad * t"
      using deg_to_half_rad_bounds t by (intro mult_mono) simp_all
    then show "2616 / 10000 \<le> \<theta>" by (simp add: \<theta>_def)
    have "deg_to_half_rad * t \<le> 873 / 100000 * 120"
      using deg_to_half_rad_bounds t by (intro mult_mono) simp_all
    then show "\<theta> \<le> 10476 / 10000" by (simp add: \<theta>_def)
  qed
  have "\<bar>y - \<theta>\<bar> \<le> 8 * (1 / 100000) * \<bar>\<theta>\<bar>"
    using yc(1) by (simp add: close_to_def)
  with th have yt: "\<bar>y - \<theta>\<bar> \<le> 9 / 100000" by simp
  have at: "\<bar>arctan v - \<theta>\<bar> \<le> 25 / 100000"
    using av yt by linarith
  have wc: "close_to 1 w (arctan v)"
    unfolding w_def by (rule accurateD(5) [OF a vr])
  then have "\<bar>w - arctan v\<bar> \<le> 1 / 100000 * \<bar>arctan v\<bar>"
    by (simp add: close_to_def)
  with at th have "\<bar>w - arctan v\<bar> \<le> 2 / 100000" by linarith
  with at have "\<bar>w - \<theta>\<bar> \<le> 27 / 100000" by linarith
  with th have wt: "close_to 108 w \<theta>" by (simp add: close_to_def)
  have rw: "in_range w"
    by (rule close_to_in_range [OF wt]) (use th in simp_all)
  \<comment> \<open>back to degrees\<close>
  have kc: "close_to 5 k (1 / deg_to_half_rad)"
    unfolding k_def by (rule PI_over_360_close [OF a])
  have inv: "2 / 1000 \<le> \<bar>1 / deg_to_half_rad\<bar>" "\<bar>1 / deg_to_half_rad\<bar> \<le> 900"
    by (simp_all add: deg_to_half_rad_def)
  have rk: "in_range k"
    by (rule close_to_in_range [OF kc _ _ inv]) simp_all
  have "close_to (5 + 108 + 1) (k * w) (1 / deg_to_half_rad * \<theta>)"
    by (rule close_to_mult [OF kc wt]) simp_all
  moreover have "1 / deg_to_half_rad * \<theta> = t"
    by (simp add: \<theta>_def deg_to_half_rad_def)
  ultimately have "close_to 114 (k * w) t" by simp
  moreover have "close_to 1 (fmul fp k w) (k * w)"
    by (rule accurateD(2) [OF a rk rw])
  ultimately have "close_to (1 + 114 + 1) (fmul fp k w) t"
    by (intro close_to_trans) simp_all
  then show ?thesis
    by (simp add: fov_from_proj_scale_def k_def w_def v_def m_def T_def B_def)
qed

lemma round_half_away_near:
  assumes "\<bar>u - of_int n\<bar> < 1 / 2" "1 \<le> n"
  shows "round_half_away u = of_int n"
proof -
  have "0 \<le> u" using assms by linarith
  moreover have "\<lfloor>u + 1 / 2\<rfloor> = n"
    using assms by (intro floor_unique) linarith+
  ultimately show ?thesis by (simp add: round_half_away_def)
qed

lemma from_context_fov_range:
  assumes "accurate fp"
  shows "29 \<le> fov (from_context fp c)" "fov (from_context fp c) \<le> 121"
proof -
  have "close_to 1 (flit fp 53) 53" "close_to 1 (flit fp 51) 51"
    by (rule accurateD(1) [OF assms], simp add: in_range_def)+
  from close_to_bounds [OF this(1)] close_to_bounds [OF this(2)]
  show "29 \<le> fov (from_context fp c)" "fov (from_context fp c) \<le> 121"
    by (cases c; simp add: from_context_def default_hub_params_def default_room_params_def
        default_quest_params_def)+
qed

lemma adjust_fov_unrounded_close:
  assumes a: "accurate fp" and n: "camera_id st \<noteq> SurveyorSet"
    and t: "30 \<le> Settings.fov (get_settings g (get_config g) (context st))"
      "Settings.fov (get_settings g (get_config g) (context st)) \<le> 120"
    and p: "fov p = fov (from_context fp (context st))"
  shows "\<exists>u. fov (adjust fp g st p) = round_half_away u \<and>
           close_to 116 u (Settings.fov (get_settings g (get_config g) (context st)))"
proof -
  let ?t = "Settings.fov (get_settings g (get_config g) (context st))"
  let ?b = "fov (from_context fp (context st))"
  let ?u = "fov_from_proj_scale fp
       (fdiv fp (fmul fp (proj_scale_from_fov fp ?t) (proj_scale_from_fov fp ?b))
          (proj_scale_from_fov fp ?b))"
  have "fov (adjust fp g st p) = fround fp ?u"
    using n p by (simp add: adjust_def Let_def)
  then have "fov (adjust fp g st p) = round_half_away ?u"
    by (simp add: accurateD(6) [OF a])
  moreover have "close_to 116 ?u ?t"
    by (rule unrounded_fov_close [OF a t from_context_fov_range [OF a]])
  ultimately show ?thesis by blast
qed

text \<open>
  C5 (amended). For every float unit that is accurate, every non-surveyor state and every
  target fov that is a whole number of degrees between 30 and 120: if the raw fov equals
  the baseline fov of the tracked context, the adjusted fov equals the target fov.
\<close>

theorem adjust_fov_at_baseline:
  assumes "accurate fp" and "camera_id st \<noteq> SurveyorSet"
    and "Settings.fov (get_settings g (get_config g) (context st)) = of_int n"
    and "30 \<le> n" and "n \<le> 120"
    and "fov p = fov (from_context fp (context st))"
  shows "fov (adjust fp g st p) = Settings.fov (get_settings g (get_config g) (context st))"
proof -
  let ?t = "Settings.fov (get_settings g (get_config g) (context st))"
  have t: "30 \<le> ?t" "?t \<le> 120" using assms(3-5) by simp_all
  obtain u where u: "fov (adjust fp g st p) = round_half_away u" "close_to 116 u ?t"
    using adjust_fov_unrounded_close [OF assms(1,2) t assms(6)] by blast
  have "\<bar>u - ?t\<bar> \<le> 116 * (1 / 100000) * \<bar>?t\<bar>"
    using u(2) by (simp add: close_to_def)
  with t have "\<bar>u - of_int n\<bar> < 1 / 2" using assms(3) by simp
  then have "round_half_away u = of_int n"
    by (rule round_half_away_near) (use assms(4) in simp)
  with u(1) assms(3) show ?thesis by simp
qed

lemma exact_fpu_accurate: "accurate exact_fpu"
  by (simp add: accurate_def close_to_def exact_fpu_simps)

theorem adjust_fov_at_baseline_witness:
  "accurate exact_fpu \<and>
   camera_id \<lparr>context = Room, camera_id = SelianaRoom\<rparr> \<noteq> SurveyorSet \<and>
   fov (adjust exact_fpu
     \<lparr>hub_cam = \<lparr>Settings.fov = 53, distance = 1, height = 1\<rparr>,
      room_cam = \<lparr>Settings.fov = 64, distance = 1, height = 1\<rparr>,
      quest_cam = \<lparr>Settings.fov = 53, distance = 1, height = 1\<rparr>,
      disable_room_shift = False\<rparr>
     \<lparr>context = Room, camera_id = SelianaRoom\<rparr>
     \<lparr>fov = 51, distance = 260, height = 160, shift = - 50\<rparr>) = 64"
proof -
  let ?g = "\<lparr>hub_cam = \<lparr>Settings.fov = 53, distance = 1, height = 1\<rparr>,
      room_cam = \<lparr>Settings.fov = 64, distance = 1, height = 1\<rparr>,
      quest_cam = \<lparr>Settings.fov = 53, distance = 1, height = 1\<rparr>,
      disable_room_shift = False\<rparr> :: real UserConfig"
  let ?st = "\<lparr>context = Room, camera_id = SelianaRoom\<rparr>"
  let ?p = "\<lparr>fov = 51, distance = 260, height = 160, shift = - 50\<rparr> :: real Params"
  have n: "camera_id ?st \<noteq> SurveyorSet"
    by (simp add: CameraID_defs)
  have t: "Settings.fov (get_settings ?g (get_config ?g) (context ?st)) = of_int 64"
    by (simp add: get_settings_def get_config_def)
  have eq: "fov ?p = fov (from_context exact_fpu (context ?st))"
    by (simp add: from_context_def default_room_params_def exact_fpu_simps)
  from n exact_fpu_accurate adjust_fov_at_baseline [OF exact_fpu_accurate n t _ _ eq]
  show ?thesis
    by (simp add: get_settings_def get_config_def)
qed

text \<open>
  C5 as stated fails for a target that is not a whole number of degrees: with target
  70.25 and the raw fov at the quest baseline 53, the adjusted fov is 70.
\<close>

theorem adjust_fov_target_counterexample:
  "camera_id g_state_init \<noteq> SurveyorSet \<and>
   fov \<lparr>fov = 53, distance = 380, height = 180, shift = 0 :: real\<rparr> =
     fov (from_context exact_fpu (context g_state_init)) \<and>
   (30 :: real) \<le> 70.25 \<and> (70.25 :: real) \<le> 120 \<and>
   fov (adjust exact_fpu
     \<lparr>hub_cam = \<lparr>Settings.fov = 53, distance = 1, height = 1\<rparr>,
      room_cam = \<lparr>Settings.fov = 53, distance = 1, height = 1\<rparr>,
      quest_cam = \<lparr>Settings.fov = 70.25, distance = 1, height = 1\<rparr>,
      disable_room_shift = False\<rparr>
     g_state_init
     \<lparr>fov = 53, distance = 380, height = 180, shift = 0\<rparr>) = 70 \<and>
   (70 :: real) \<noteq> 70.25"
proof -
  let ?g = "\<lparr>hub_cam = \<lparr>Settings.fov = 53, distance = 1, height = 1\<rparr>,
      room_cam = \<lparr>Settings.fov = 53, distance = 1, height = 1\<rparr>,
      quest_cam = \<lparr>Settings.fov = 70.25, distance = 1, height = 1\<rparr>,
      disable_room_shift = False\<rparr> :: real UserConfig"
  let ?p = "\<lparr>fov = 53, distance = 380, height = 180, shift = 0\<rparr> :: real Params"
  have n: "camera_id g_state_init \<noteq> SurveyorSet"
    by (simp add: g_state_init_def CameraID_defs)
  have b: "0 < proj_scale_from_fov exact_fpu 53"
    by (rule exact_proj_pos) simp_all
  have r: "fov_from_proj_scale exact_fpu (proj_scale_from_fov exact_fpu 70.25) = 70.25"
    by (rule exact_roundtrip) simp_all
  have "fov (adjust exact_fpu ?g g_state_init ?p) =
      fround exact_fpu (fov_from_proj_scale exact_fpu
        (fdiv exact_fpu
          (fmul exact_fpu (proj_scale_from_fov exact_fpu 70.25) (proj_scale_from_fov exact_fpu 53))
          (proj_scale_from_fov exact_fpu 53)))"
    using n
    by (simp add: adjust_def Let_def g_state_init_def get_settings_def get_config_def
        from_context_def default_quest_params_def exact_fpu_simps)
  also have "\<dots> = fround exact_fpu (fov_from_proj_scale exact_fpu (proj_scale_from_fov exact_fpu 70.25))"
    using b by (simp add: exact_fpu_simps)
  also have "\<dots> = 70"
    by (subst r) (simp add: exact_fpu_simps round_half_away_def)
  finally show ?thesis
    using n
    by (simp add: g_state_init_def from_context_def default_quest_params_def exact_fpu_simps)
qed

text \<open>
  The same input on every accurate unit: the value before rounding is within 0.1 of
  70.25, and the adjusted fov is 70, not the target.
\<close>

lemma adjust_fov_fractional_target:
  assumes "accurate fp" and "camera_id st \<noteq> SurveyorSet"
    and "Settings.fov (get_settings g (get_config g) (context st)) = 70.25"
    and "fov p = fov (from_context fp (context st))"
  shows "fov (adjust fp g st p) = 70"
proof -
  let ?t = "Settings.fov (get_settings g (get_config g) (context st))"
  have t: "30 \<le> ?t" "?t \<le> 120" using assms(3) by simp_all
  obtain u where u: "fov (adjust fp g st p) = round_half_away u" "close_to 116 u ?t"
    using adjust_fov_unrounded_close [OF assms(1,2) t assms(4)] by blast
  have "\<bar>u - ?t\<bar> \<le> 116 * (1 / 100000) * \<bar>?t\<bar>"
    using u(2) by (simp add: close_to_def)
  then have "\<bar>u - 70.25\<bar> \<le> 116 * (1 / 100000) * 70.25"
    using assms(3) by simp
  then have "\<bar>u - 70.25\<bar> \<le> 1 / 10" by simp
  then have "\<bar>u - 70\<bar> < 1 / 2" by (auto simp: abs_if split: if_splits)
  then have "\<bar>u - of_int 70\<bar> < 1 / 2" by simp
  then have "round_half_away u = of_int 70"
    by (rule round_half_away_near) simp
  with u(1) show ?thesis by simp
qed

section \<open>Memory layout and frame\<close>

lemma bytes_join:
  "(ucast (ucast w :: 8 word) :: 32 word) OR
     push_bit 8 (ucast (ucast (drop_bit 8 w) :: 8 word)) OR
     push_bit 16 (ucast (ucast (drop_bit 16 w) :: 8 word)) OR
     push_bit 24 (ucast (ucast (drop_bit 24 w) :: 8 word)) = (w :: 32 word)"
  (is "?lhs = w")
proof (rule bit_word_eqI)
  fix n :: nat
  assume "n < LENGTH(32)"
  then have "n < 8 \<or> (8 \<le> n \<and> n < 16) \<or> (16 \<le> n \<and> n < 24) \<or> (24 \<le> n \<and> n < 32)"
    by auto
  then show "bit ?lhs n = bit w n"
    by (auto simp: bit_simps)
qed

lemma load32_store32_same: "load32 (store32 mem a w) a = w"
  by (simp add: load32_def store32_def bytes_join)

lemma store32_other: "x \<notin> bytes32 a \<Longrightarrow> store32 mem a w x = mem x"
  by (simp add: store32_def bytes32_def)

lemma load32_store32_other:
  assumes "bytes32 a \<inter> bytes32 b = {}"
  shows "load32 (store32 mem b w) a = load32 mem a"
proof -
  have "x \<notin> bytes32 b" if "x \<in> bytes32 a" for x
    using assms that by blast
  then have "store32 mem b w x = mem x" if "x \<in> bytes32 a" for x
    using that by (simp add: store32_other)
  from this [of a] this [of "a + 1"] this [of "a + 2"] this [of "a + 3"]
  show ?thesis by (simp add: load32_def bytes32_def)
qed

lemma fneg_fneg: "fneg (fneg w) = w"
  by (simp add: fneg_def xor.assoc)

lemma fields_disjoint:
  "bytes32 (a + 0x10) \<inter> bytes32 (a + 0x14) = {}" "bytes32 (a + 0x10) \<inter> bytes32 (a + 0x18) = {}"
  "bytes32 (a + 0x10) \<inter> bytes32 (a + 0x20) = {}" "bytes32 (a + 0x14) \<inter> bytes32 (a + 0x10) = {}"
  "bytes32 (a + 0x14) \<inter> bytes32 (a + 0x18) = {}" "bytes32 (a + 0x14) \<inter> bytes32 (a + 0x20) = {}"
  "bytes32 (a + 0x18) \<inter> bytes32 (a + 0x10) = {}" "bytes32 (a + 0x18) \<inter> bytes32 (a + 0x14) = {}"
  "bytes32 (a + 0x18) \<inter> bytes32 (a + 0x20) = {}" "bytes32 (a + 0x20) \<inter> bytes32 (a + 0x10) = {}"
  "bytes32 (a + 0x20) \<inter> bytes32 (a + 0x14) = {}" "bytes32 (a + 0x20) \<inter> bytes32 (a + 0x18) = {}"
  by (simp_all add: bytes32_def)

lemma load32_to_memory:
  "load32 (to_memory p a mem) (a + 0x10) = shift p"
  "load32 (to_memory p a mem) (a + 0x14) = height p"
  "load32 (to_memory p a mem) (a + 0x18) = fneg (distance p)"
  "load32 (to_memory p a mem) (a + 0x20) = fov p"
  by (simp_all add: to_memory_def Let_def load32_store32_same load32_store32_other fields_disjoint)

lemma to_memory_other:
  "x \<notin> bytes32 (a + 0x10) \<union> bytes32 (a + 0x14) \<union> bytes32 (a + 0x18) \<union> bytes32 (a + 0x20) \<Longrightarrow>
   to_memory p a mem x = mem x"
  by (simp add: to_memory_def Let_def store32_other)

text \<open>
  C8. The layout: \<^verbatim>\<open>to_memory\<close> puts shift at \<open>+0x10\<close>, height at \<open>+0x14\<close>, the negated
  distance at \<open>+0x18\<close> and fov at \<open>+0x20\<close> of the parameter block; \<^verbatim>\<open>from_memory\<close>
  reads the same places and negates the distance again; \<^verbatim>\<open>camera::update\<close> uses the
  block at \<open>0x5d0\<close> from the camera base and the 32-bit identifier at \<open>0x13b8\<close>. For
  every parameter value and block address, reading back after writing yields the value
  written, bit for bit.
\<close>

theorem memory_layout_roundtrip:
  "from_memory (to_memory p a mem) a = p \<and>
   load32 (to_memory p a mem) (a + 0x10) = shift p \<and>
   load32 (to_memory p a mem) (a + 0x14) = height p \<and>
   load32 (to_memory p a mem) (a + 0x18) = fneg (distance p) \<and>
   load32 (to_memory p a mem) (a + 0x20) = fov p \<and>
   shift (from_memory mem a) = load32 mem (a + 0x10) \<and>
   height (from_memory mem a) = load32 mem (a + 0x14) \<and>
   distance (from_memory mem a) = fneg (load32 mem (a + 0x18)) \<and>
   fov (from_memory mem a) = load32 mem (a + 0x20) \<and>
   fneg (fneg (distance p)) = distance p \<and>
   camera_update fp g st base mem =
     (State_update st (load32 mem (base + 0x13b8)),
      to_memory
        (adjust fp g (State_update st (load32 mem (base + 0x13b8))) (from_memory mem (base + 0x5d0)))
        (base + 0x5d0) mem)"
  by (simp add: from_memory_def load32_to_memory fneg_fneg camera_update_def Let_def)

text \<open>
  C9. For every invocation of \<^verbatim>\<open>camera::update\<close> on a camera base address, every byte of
  the game's memory outside the four 32-bit parameter fields at \<open>0x5d0 + 0x10\<close>,
  \<open>0x5d0 + 0x14\<close>, \<open>0x5d0 + 0x18\<close> and \<open>0x5d0 + 0x20\<close> is left unchanged, and so is the
  camera identifier at \<open>0x13b8\<close>.
\<close>

theorem camera_update_frame:
  "(x \<notin> param_field_bytes base \<longrightarrow> snd (camera_update fp g st base mem) x = mem x) \<and>
   load32 (snd (camera_update fp g st base mem)) (base + 0x13b8) = load32 mem (base + 0x13b8)"
proof -
  have frame: "snd (camera_update fp g st base mem) y = mem y" if "y \<notin> param_field_bytes base" for y
    using that by (simp add: camera_update_def Let_def param_field_bytes_def to_memory_other)
  have "base + 0x13b8 + k \<notin> param_field_bytes base" if "k \<in> {0, 1, 2, 3}" for k
    using that by (auto simp: param_field_bytes_def bytes32_def)
  then have "snd (camera_update fp g st base mem) (base + 0x13b8 + k) = mem (base + 0x13b8 + k)"
    if "k \<in> {0, 1, 2, 3}" for k
    using that frame by blast
  from this [of 0] this [of 1] this [of 2] this [of 3]
  have "load32 (snd (camera_update fp g st base mem)) (base + 0x13b8) = load32 mem (base + 0x13b8)"
    by (simp add: load32_def)
  with frame show ?thesis by blast
qed

theorem camera_update_frame_witness:
  "\<forall>fp. 0x23b8 \<notin> param_field_bytes 0x1000 \<and>
     snd (camera_update fp
       \<lparr>hub_cam = \<lparr>Settings.fov = 0x42540000, distance = 0x3F800000, height = 0x3F800000\<rparr>,
        room_cam = \<lparr>Settings.fov = 0x42540000, distance = 0x3F800000, height = 0x3F800000\<rparr>,
        quest_cam = \<lparr>Settings.fov = 0x428C0000, distance = 0x3F99999A, height = 0x3F800000\<rparr>,
        disable_room_shift = False\<rparr>
       g_state_init 0x1000 ((\<lambda>a. 0)(0x23b8 := 3))) 0x23b8 = 3"
proof
  fix fp :: "float32 fpu"
  have n: "0x23b8 \<notin> param_field_bytes 0x1000"
    by (simp add: param_field_bytes_def bytes32_def)
  from n camera_update_frame [of "0x23b8" "0x1000" fp _ g_state_init "(\<lambda>a. 0)(0x23b8 := 3)"]
  show "0x23b8 \<notin> param_field_bytes 0x1000 \<and>
     snd (camera_update fp
       \<lparr>hub_cam = \<lparr>Settings.fov = 0x42540000, distance = 0x3F800000, height = 0x3F800000\<rparr>,
        room_cam = \<lparr>Settings.fov = 0x42540000, distance = 0x3F800000, height = 0x3F800000\<rparr>,
        quest_cam = \<lparr>Settings.fov = 0x428C0000, distance = 0x3F99999A, height = 0x3F800000\<rparr>,
        disable_room_shift = False\<rparr>
       g_state_init 0x1000 ((\<lambda>a. 0)(0x23b8 := 3))) 0x23b8 = 3"
    by simp
qed

end
